theory Spec2Isabelle
  imports Complex_Main "HOL-Library.Monad_Syntax"
begin

section \<open>Numbers\<close>

text \<open>
  Python floats are modelled as exact reals: the arithmetic of \<^verbatim>\<open>hand_tracker.py\<close> is
  read as arithmetic over \<open>real\<close>, without the rounding of IEEE doubles.  Python's
  \<^verbatim>\<open>int(x)\<close> on a float truncates toward zero.
\<close>

definition py_int :: "real \<Rightarrow> int" where
  "py_int v = (if 0 \<le> v then \<lfloor>v\<rfloor> else \<lceil>v\<rceil>)"

section \<open>HandCalibration\<close>

text \<open>
  \<^verbatim>\<open>self.finger_ranges\<close> is a dict from finger names to two-element lists
  \<^verbatim>\<open>[min, max]\<close>.
\<close>

type_synonym finger_ranges = "string \<rightharpoonup> (real \<times> real)"

definition default_ranges :: finger_ranges where
  "default_ranges =
     [''pinky'' \<mapsto> (5 / 10, 22 / 10),
      ''ring'' \<mapsto> (5 / 10, 22 / 10),
      ''middle'' \<mapsto> (5 / 10, 22 / 10),
      ''index'' \<mapsto> (5 / 10, 22 / 10),
      ''thumb_bend'' \<mapsto> (3 / 10, 15 / 10),
      ''thumb_rotation'' \<mapsto> (15 / 100, 85 / 100)]"

text \<open>
  The calibration file as \<^verbatim>\<open>load_calibration\<close> finds it: absent, unreadable (the
  \<^verbatim>\<open>except\<close> branch), or a JSON object whose values are pairs of numbers.
\<close>

datatype calibration_file = Missing | Corrupt | Content finger_ranges

text \<open>\<^verbatim>\<open>os.path.exists(CALIBRATION_FILE)\<close>.\<close>

fun path_exists :: "calibration_file \<Rightarrow> bool" where
  "path_exists Missing = False"
| "path_exists Corrupt = True"
| "path_exists (Content loaded) = True"

text \<open>\<^verbatim>\<open>load_calibration\<close>: the ranges after the call and the returned flag.\<close>

fun load_calibration :: "finger_ranges \<Rightarrow> calibration_file \<Rightarrow> finger_ranges \<times> bool" where
  "load_calibration fr Missing = (fr, False)"
| "load_calibration fr Corrupt = (fr, False)"
| "load_calibration fr (Content loaded) = (fr ++ loaded, True)"

text \<open>\<^verbatim>\<open>__init__\<close>: the defaults, then \<^verbatim>\<open>load_calibration\<close>.\<close>

definition HandCalibration_init :: "calibration_file \<Rightarrow> finger_ranges" where
  "HandCalibration_init file = fst (load_calibration default_ranges file)"

text \<open>
  \<^verbatim>\<open>save_calibration\<close>: the file after the call and the returned flag; \<open>io_ok\<close> says
  whether opening and writing the file succeeds.
\<close>

definition save_calibration ::
  "finger_ranges \<Rightarrow> bool \<Rightarrow> calibration_file \<Rightarrow> calibration_file \<times> bool" where
  "save_calibration fr io_ok file = (if io_ok then (Content fr, True) else (file, False))"

definition update_min :: "finger_ranges \<Rightarrow> string \<Rightarrow> real \<Rightarrow> finger_ranges" where
  "update_min fr finger_name v =
     (case fr finger_name of
        None \<Rightarrow> fr
      | Some (min_val, max_val) \<Rightarrow> fr(finger_name \<mapsto> (v, max_val)))"

definition update_max :: "finger_ranges \<Rightarrow> string \<Rightarrow> real \<Rightarrow> finger_ranges" where
  "update_max fr finger_name v =
     (case fr finger_name of
        None \<Rightarrow> fr
      | Some (min_val, max_val) \<Rightarrow> fr(finger_name \<mapsto> (min_val, v)))"

definition normalize :: "finger_ranges \<Rightarrow> string \<Rightarrow> real \<Rightarrow> int" where
  "normalize fr finger_name raw_value =
     (case fr finger_name of
        None \<Rightarrow> 500
      | Some (min_val, max_val) \<Rightarrow>
          if \<bar>max_val - min_val\<bar> < 1 / 1000 then 500
          else
            let normalized = (raw_value - min_val) / (max_val - min_val);
                normalized = max 0 (min 1 normalized)
            in py_int (normalized * 1000))"

definition reset_defaults :: finger_ranges where
  "reset_defaults = default_ranges"

section \<open>AngleSmoother\<close>

record AngleSmoother =
  alpha :: real
  smoothed :: "real list"
  initialized :: bool

definition AngleSmoother_init :: "real \<Rightarrow> AngleSmoother" where
  "AngleSmoother_init a = \<lparr>alpha = a, smoothed = replicate 6 500, initialized = False\<rparr>"

text \<open>
  The loop \<^verbatim>\<open>for i in range(len(angles))\<close> of \<^verbatim>\<open>smooth\<close>, from index \<open>i\<close> on, over the
  angles not yet visited; it writes \<^verbatim>\<open>self.smoothed[i]\<close> in place.  \<open>None\<close> is the
  IndexError that Python raises when \<^verbatim>\<open>self.smoothed\<close> is shorter than \<^verbatim>\<open>angles\<close>.
\<close>

fun smooth_loop :: "real \<Rightarrow> int list \<Rightarrow> nat \<Rightarrow> real list \<Rightarrow> real list option" where
  "smooth_loop a [] i sm = Some sm"
| "smooth_loop a (angle # rest) i sm =
     (if i < length sm
      then smooth_loop a rest (Suc i) (sm[i := a * of_int angle + (1 - a) * sm ! i])
      else None)"

text \<open>\<^verbatim>\<open>smooth\<close> returns the list it computes together with the updated object.\<close>

definition smooth :: "AngleSmoother \<Rightarrow> int list \<Rightarrow> (int list \<times> AngleSmoother) option" where
  "smooth s angles =
     (if \<not> initialized s then
        let s' = s\<lparr>smoothed := map of_int angles, initialized := True\<rparr>
        in Some (map py_int (smoothed s'), s')
      else
        case smooth_loop (alpha s) angles 0 (smoothed s) of
          None \<Rightarrow> None
        | Some sm \<Rightarrow> Some (map py_int sm, s\<lparr>smoothed := sm\<rparr>))"

definition reset :: "AngleSmoother \<Rightarrow> AngleSmoother" where
  "reset s = s\<lparr>initialized := False\<rparr>"

section \<open>Feature extraction\<close>

record landmark =
  lm_x :: real
  lm_y :: real
  lm_z :: real

type_synonym vec3 = "real \<times> real \<times> real"

fun vsub :: "vec3 \<Rightarrow> vec3 \<Rightarrow> vec3" where
  "vsub (a1, a2, a3) (b1, b2, b3) = (a1 - b1, a2 - b2, a3 - b3)"

fun vadd :: "vec3 \<Rightarrow> vec3 \<Rightarrow> vec3" where
  "vadd (a1, a2, a3) (b1, b2, b3) = (a1 + b1, a2 + b2, a3 + b3)"

fun vdiv :: "vec3 \<Rightarrow> real \<Rightarrow> vec3" where
  "vdiv (a1, a2, a3) c = (a1 / c, a2 / c, a3 / c)"

text \<open>\<^verbatim>\<open>np.linalg.norm\<close> of a three-element array.\<close>

fun linalg_norm :: "vec3 \<Rightarrow> real" where
  "linalg_norm (a1, a2, a3) = sqrt (a1\<^sup>2 + a2\<^sup>2 + a3\<^sup>2)"

text \<open>\<open>None\<close> is the IndexError of \<^verbatim>\<open>landmarks[idx]\<close>.\<close>

definition get_landmark_array :: "landmark list \<Rightarrow> nat \<Rightarrow> vec3 option" where
  "get_landmark_array landmarks idx =
     (if idx < length landmarks
      then let lm = landmarks ! idx in Some (lm_x lm, lm_y lm, lm_z lm)
      else None)"

definition calculate_finger_raw_value ::
  "landmark list \<Rightarrow> nat \<Rightarrow> nat \<Rightarrow> nat \<Rightarrow> nat \<Rightarrow> nat \<Rightarrow> real option" where
  "calculate_finger_raw_value landmarks mcp_idx pip_idx dip_idx tip_idx wrist_idx = do {
     wrist \<leftarrow> get_landmark_array landmarks wrist_idx;
     mcp \<leftarrow> get_landmark_array landmarks mcp_idx;
     tip \<leftarrow> get_landmark_array landmarks tip_idx;
     let tip_to_wrist = linalg_norm (vsub tip wrist);
     let mcp_to_wrist = linalg_norm (vsub mcp wrist);
     if mcp_to_wrist < 1 / 1000 then Some 1
     else Some (tip_to_wrist / mcp_to_wrist)
   }"

definition calculate_thumb_bend_raw :: "landmark list \<Rightarrow> real option" where
  "calculate_thumb_bend_raw landmarks = do {
     thumb_tip \<leftarrow> get_landmark_array landmarks 4;
     index_mcp \<leftarrow> get_landmark_array landmarks 5;
     middle_mcp \<leftarrow> get_landmark_array landmarks 9;
     wrist \<leftarrow> get_landmark_array landmarks 0;
     let palm_center = vdiv (vadd (vadd index_mcp middle_mcp) wrist) 3;
     let thumb_to_palm = linalg_norm (vsub thumb_tip palm_center);
     let hand_size = linalg_norm (vsub middle_mcp wrist);
     if hand_size < 1 / 1000 then Some 1
     else Some (thumb_to_palm / hand_size)
   }"

definition calculate_thumb_rotation_raw :: "landmark list \<Rightarrow> real option" where
  "calculate_thumb_rotation_raw landmarks = do {
     thumb_tip \<leftarrow> get_landmark_array landmarks 4;
     index_mcp \<leftarrow> get_landmark_array landmarks 5;
     pinky_mcp \<leftarrow> get_landmark_array landmarks 17;
     let thumb_to_index_2d =
       sqrt ((fst thumb_tip - fst index_mcp)\<^sup>2 + (fst (snd thumb_tip) - fst (snd index_mcp))\<^sup>2);
     let palm_width =
       sqrt ((fst index_mcp - fst pinky_mcp)\<^sup>2 + (fst (snd index_mcp) - fst (snd pinky_mcp))\<^sup>2);
     if palm_width < 1 / 1000 then Some (1 / 2)
     else Some (thumb_to_index_2d / palm_width)
   }"

section \<open>The frame loop of main\<close>

record Button =
  button_x :: int
  button_y :: int
  button_width :: int
  button_height :: int

definition contains :: "Button \<Rightarrow> int \<Rightarrow> int \<Rightarrow> bool" where
  "contains b px py \<longleftrightarrow>
     button_x b \<le> px \<and> px \<le> button_x b + button_width b \<and>
     button_y b \<le> py \<and> py \<le> button_y b + button_height b"

definition btn_width :: int where "btn_width = 130"
definition btn_height :: int where "btn_height = 40"
definition btn_y :: int where "btn_y = 10"

definition btn_open :: Button where
  "btn_open = \<lparr>button_x = 640 - btn_width - 10, button_y = btn_y,
                button_width = btn_width, button_height = btn_height\<rparr>"

definition btn_closed :: Button where
  "btn_closed = \<lparr>button_x = 640 - btn_width - 10, button_y = btn_y + btn_height + 10,
                  button_width = btn_width, button_height = btn_height\<rparr>"

definition btn_save :: Button where
  "btn_save = \<lparr>button_x = 640 - btn_width - 10, button_y = btn_y + (btn_height + 10) * 2,
                button_width = btn_width, button_height = btn_height\<rparr>"

definition btn_reset :: Button where
  "btn_reset = \<lparr>button_x = 640 - btn_width - 10, button_y = btn_y + (btn_height + 10) * 3,
                 button_width = btn_width, button_height = btn_height\<rparr>"

definition btn_mirror :: Button where
  "btn_mirror = \<lparr>button_x = 640 - btn_width - 10, button_y = btn_y + (btn_height + 10) * 4,
                  button_width = btn_width, button_height = btn_height\<rparr>"

definition finger_names :: "string list" where
  "finger_names = [''pinky'', ''ring'', ''middle'', ''index'', ''thumb_bend'', ''thumb_rotation'']"

text \<open>The dict \<^verbatim>\<open>data\<close> that is sent over UDP.\<close>

record packet =
  data_detected :: bool
  data_angles :: "int list"
  data_landmarks :: "landmark list"

text \<open>
  The variables of \<^verbatim>\<open>main\<close> that live across iterations, and the calibration file.
  \<^verbatim>\<open>current_raw_values\<close> is a dict in insertion order, empty at the start.  Drawing and
  the time and colour of the message are left out.
\<close>

record tracker_state =
  calibration :: finger_ranges
  smoother :: AngleSmoother
  current_raw_values :: "(string \<times> real) list"
  mirror_mode :: bool
  message :: string
  cal_file :: calibration_file

definition main_init :: "calibration_file \<Rightarrow> tracker_state" where
  "main_init f =
     \<lparr>calibration = HandCalibration_init f,
      smoother = AngleSmoother_init (35 / 100),
      current_raw_values = [],
      mirror_mode = True,
      message = [],
      cal_file = f\<rparr>"

text \<open>
  What one iteration reads from outside: whether \<^verbatim>\<open>cap.read()\<close> succeeded, the landmarks
  of the first detected hand (if \<^verbatim>\<open>results.multi_hand_landmarks\<close> is non-empty), the
  mouse globals, the key code \<^verbatim>\<open>cv2.waitKey(1) & 0xFF\<close>, and whether file operations
  succeed.
\<close>

record loop_input =
  in_success :: bool
  in_hand :: "landmark list option"
  in_mouse_x :: int
  in_mouse_y :: int
  in_mouse_clicked :: bool
  in_key :: nat
  in_io_ok :: bool

definition no_hand_data :: packet where
  "no_hand_data =
     \<lparr>data_detected = False,
      data_angles = [1000, 1000, 1000, 1000, 1000, 500],
      data_landmarks = []\<rparr>"

text \<open>
  The part of the loop body that builds \<^verbatim>\<open>data\<close> (up to \<^verbatim>\<open>sock.sendto\<close>).  \<open>None\<close> is
  an IndexError escaping from the feature functions or from \<^verbatim>\<open>smooth\<close>.
\<close>

definition process_frame ::
  "tracker_state \<Rightarrow> landmark list option \<Rightarrow> (packet \<times> tracker_state) option" where
  "process_frame st hand =
     (let data = no_hand_data in
      case hand of
        None \<Rightarrow> Some (data, st)
      | Some landmarks \<Rightarrow> do {
          raw_pinky \<leftarrow> calculate_finger_raw_value landmarks 17 18 19 20 0;
          raw_ring \<leftarrow> calculate_finger_raw_value landmarks 13 14 15 16 0;
          raw_middle \<leftarrow> calculate_finger_raw_value landmarks 9 10 11 12 0;
          raw_index \<leftarrow> calculate_finger_raw_value landmarks 5 6 7 8 0;
          raw_thumb_bend \<leftarrow> calculate_thumb_bend_raw landmarks;
          raw_thumb_rotation \<leftarrow> calculate_thumb_rotation_raw landmarks;
          let raw_values =
            [(''pinky'', raw_pinky), (''ring'', raw_ring), (''middle'', raw_middle),
             (''index'', raw_index), (''thumb_bend'', raw_thumb_bend),
             (''thumb_rotation'', raw_thumb_rotation)];
          let pinky_norm = normalize (calibration st) ''pinky'' raw_pinky;
          let ring_norm = normalize (calibration st) ''ring'' raw_ring;
          let middle_norm = normalize (calibration st) ''middle'' raw_middle;
          let index_norm = normalize (calibration st) ''index'' raw_index;
          let thumb_bend_norm = normalize (calibration st) ''thumb_bend'' raw_thumb_bend;
          let thumb_rotation_norm =
            normalize (calibration st) ''thumb_rotation'' raw_thumb_rotation;
          let raw_angles =
            [pinky_norm, ring_norm, middle_norm, index_norm, thumb_bend_norm,
             thumb_rotation_norm];
          (smoothed_angles, sm) \<leftarrow> smooth (smoother st) raw_angles;
          Some (data\<lparr>data_detected := True, data_angles := smoothed_angles,
                     data_landmarks := landmarks\<rparr>,
                st\<lparr>current_raw_values := raw_values, smoother := sm\<rparr>)
        })"

text \<open>
  The loops \<^verbatim>\<open>for fname in finger_names: if fname in current_raw_values: ...\<close> of the
  two capture events.
\<close>

definition capture_max :: "finger_ranges \<Rightarrow> (string \<times> real) list \<Rightarrow> finger_ranges" where
  "capture_max fr raw =
     fold (\<lambda>fname c. case map_of raw fname of None \<Rightarrow> c | Some v \<Rightarrow> update_max c fname v)
       finger_names fr"

definition capture_min :: "finger_ranges \<Rightarrow> (string \<times> real) list \<Rightarrow> finger_ranges" where
  "capture_min fr raw =
     fold (\<lambda>fname c. case map_of raw fname of None \<Rightarrow> c | Some v \<Rightarrow> update_min c fname v)
       finger_names fr"

text \<open>The button branch, taken when \<^verbatim>\<open>mouse_clicked\<close> is set.\<close>

definition handle_click :: "tracker_state \<Rightarrow> int \<Rightarrow> int \<Rightarrow> bool \<Rightarrow> tracker_state" where
  "handle_click st mouse_x mouse_y io_ok =
     (if contains btn_open mouse_x mouse_y then
        if current_raw_values st \<noteq> [] then
          st\<lparr>calibration := capture_max (calibration st) (current_raw_values st),
             message := ''OPEN hand calibrated!'',
             smoother := reset (smoother st)\<rparr>
        else st\<lparr>message := ''No hand detected!''\<rparr>
      else if contains btn_closed mouse_x mouse_y then
        if current_raw_values st \<noteq> [] then
          st\<lparr>calibration := capture_min (calibration st) (current_raw_values st),
             message := ''CLOSED fist calibrated!'',
             smoother := reset (smoother st)\<rparr>
        else st\<lparr>message := ''No hand detected!''\<rparr>
      else if contains btn_save mouse_x mouse_y then
        let (f, ok) = save_calibration (calibration st) io_ok (cal_file st)
        in st\<lparr>cal_file := f, message := (if ok then ''Calibration SAVED!'' else ''Save FAILED!'')\<rparr>
      else if contains btn_reset mouse_x mouse_y then
        st\<lparr>calibration := reset_defaults,
           cal_file := (if path_exists (cal_file st) \<and> io_ok then Missing else cal_file st),
           message := ''Reset to defaults!'',
           smoother := reset (smoother st)\<rparr>
      else if contains btn_mirror mouse_x mouse_y then
        st\<lparr>mirror_mode := \<not> mirror_mode st,
           message := (if \<not> mirror_mode st then ''Mirror: ON'' else ''Mirror: OFF'')\<rparr>
      else st)"

definition ord :: "char \<Rightarrow> nat" where
  "ord c = of_char c"

text \<open>The keyboard branch; the flag says whether the loop breaks.\<close>

definition handle_key :: "tracker_state \<Rightarrow> nat \<Rightarrow> bool \<Rightarrow> tracker_state \<times> bool" where
  "handle_key st k io_ok =
     (if k = ord CHR ''q'' then (st, True)
      else if k = ord CHR ''m'' then
        (st\<lparr>mirror_mode := \<not> mirror_mode st,
            message := (if \<not> mirror_mode st then ''Mirror: ON'' else ''Mirror: OFF'')\<rparr>, False)
      else if k = ord CHR ''1'' \<and> current_raw_values st \<noteq> [] then
        (st\<lparr>calibration := capture_max (calibration st) (current_raw_values st),
            message := ''OPEN hand calibrated!'',
            smoother := reset (smoother st)\<rparr>, False)
      else if k = ord CHR ''2'' \<and> current_raw_values st \<noteq> [] then
        (st\<lparr>calibration := capture_min (calibration st) (current_raw_values st),
            message := ''CLOSED fist calibrated!'',
            smoother := reset (smoother st)\<rparr>, False)
      else if k = ord CHR ''s'' then
        (st\<lparr>cal_file := fst (save_calibration (calibration st) io_ok (cal_file st)),
            message := ''Calibration SAVED!''\<rparr>, False)
      else if k = ord CHR ''r'' then
        (st\<lparr>calibration := reset_defaults,
            message := ''Reset to defaults!'',
            smoother := reset (smoother st)\<rparr>, False)
      else (st, False))"

text \<open>
  One iteration of \<^verbatim>\<open>while cap.isOpened()\<close>: the packets sent (none when \<^verbatim>\<open>cap.read()\<close>
  fails and the iteration is skipped), the new state, and whether the loop goes on.
\<close>

definition loop_iteration ::
  "tracker_state \<Rightarrow> loop_input \<Rightarrow> (packet list \<times> tracker_state \<times> bool) option" where
  "loop_iteration st inp =
     (if \<not> in_success inp then Some ([], st, True)
      else do {
        (data, st1) \<leftarrow> process_frame st (in_hand inp);
        let st2 = (if in_mouse_clicked inp
                   then handle_click st1 (in_mouse_x inp) (in_mouse_y inp) (in_io_ok inp)
                   else st1);
        let (st3, quit) = handle_key st2 (in_key inp) (in_io_ok inp);
        Some ([data], st3, \<not> quit)
      })"

fun run :: "tracker_state \<Rightarrow> loop_input list \<Rightarrow> (packet list \<times> tracker_state) option" where
  "run st [] = Some ([], st)"
| "run st (inp # rest) =
     (case loop_iteration st inp of
        None \<Rightarrow> None
      | Some (sent, st', continue) \<Rightarrow>
          if continue then
            (case run st' rest of
               None \<Rightarrow> None
             | Some (later, st'') \<Rightarrow> Some (sent @ later, st''))
          else Some (sent, st'))"

text \<open>A run of frames alone, with no click and no key between them.\<close>

fun process_frames ::
  "tracker_state \<Rightarrow> landmark list option list \<Rightarrow> (packet list \<times> tracker_state) option" where
  "process_frames st [] = Some ([], st)"
| "process_frames st (hand # rest) =
     (case process_frame st hand of
        None \<Rightarrow> None
      | Some (data, st') \<Rightarrow>
          (case process_frames st' rest of
             None \<Rightarrow> None
           | Some (later, st'') \<Rightarrow> Some (data # later, st'')))"

section \<open>Notions used to state the properties\<close>






text \<open>A keypoint from its coordinates.\<close>

definition point :: "real \<Rightarrow> real \<Rightarrow> real \<Rightarrow> landmark" where
  "point a b c = \<lparr>lm_x = a, lm_y = b, lm_z = c\<rparr>"

text \<open>
  Two concrete skeletons; the second differs from the first at the PIP and DIP of the
  index finger.
\<close>

definition example_hand :: "landmark list" where
  "example_hand =
     [point 0 0 0, point 1 1 0, point 2 2 0, point 3 3 0, point 3 5 1,
      point 3 4 0, point 4 5 0, point 5 6 0, point 6 8 0,
      point 0 5 0, point 0 7 0, point 0 9 0, point 0 10 0,
      point 0 0 0, point 1 0 1, point 2 0 2, point 3 0 3,
      point 0 0 2, point 0 1 2, point 0 2 2, point 0 0 3]"

definition example_hand_bent :: "landmark list" where
  "example_hand_bent = example_hand[6 := point 9 9 9, 7 := point 8 8 8]"



text \<open>An iteration with no click pending and no key that the loop handles.\<close>

definition no_event :: "loop_input \<Rightarrow> bool" where
  "no_event inp \<longleftrightarrow>
     \<not> in_mouse_clicked inp \<and>
     in_key inp \<notin> set (map ord [CHR ''q'', CHR ''m'', CHR ''1'', CHR ''2'', CHR ''s'', CHR ''r''])"


definition no_hand_input :: loop_input where
  "no_hand_input =
     \<lparr>in_success = True, in_hand = None, in_mouse_x = 510, in_mouse_y = 20,
      in_mouse_clicked = False, in_key = 255, in_io_ok = True\<rparr>"

section \<open>Properties of normalize\<close>

lemma py_int_nonneg: "0 \<le> v \<Longrightarrow> py_int v = \<lfloor>v\<rfloor>"
  by (simp add: py_int_def)

lemma py_int_of_int: "py_int (of_int k) = k"
  by (simp add: py_int_def)

lemma normalize_Some:
  assumes "fr finger_name = Some (min_val, max_val)" "\<not> \<bar>max_val - min_val\<bar> < 1 / 1000"
  shows "normalize fr finger_name raw_value =
           \<lfloor>max 0 (min 1 ((raw_value - min_val) / (max_val - min_val))) * 1000\<rfloor>"
  using assms by (simp add: normalize_def Let_def py_int_nonneg)

lemma clamped_floor_range:
  fixes t :: real
  shows "0 \<le> \<lfloor>max 0 (min 1 t) * 1000\<rfloor> \<and> \<lfloor>max 0 (min 1 t) * 1000\<rfloor> \<le> 1000"
proof -
  have "0 \<le> max 0 (min 1 t) * 1000" by simp
  moreover have "max 0 (min 1 t) * 1000 \<le> 1000" by simp
  ultimately show ?thesis by (simp add: floor_le_iff le_floor_iff)
qed

lemma normalize_range:
  "0 \<le> normalize fr finger_name raw_value \<and> normalize fr finger_name raw_value \<le> 1000"
proof (cases "fr finger_name")
  case None
  then show ?thesis by (simp add: normalize_def)
next
  case (Some p)
  obtain min_val max_val where p: "p = (min_val, max_val)" by (cases p)
  show ?thesis
  proof (cases "\<bar>max_val - min_val\<bar> < 1 / 1000")
    case True
    with Some p show ?thesis by (simp add: normalize_def)
  next
    case False
    with Some p clamped_floor_range show ?thesis by (simp add: normalize_Some)
  qed
qed

text \<open>
  C1.  For a channel of the range store whose range \<open>(min, max)\<close> has
  \<open>|max - min| \<ge> 1e-3\<close>, inverted ranges included, \<open>normalize\<close> returns an integer in
  \<open>[0, 1000]\<close> for every raw value; when \<open>max > min\<close>, the raw value \<open>min\<close> gives 0 and the
  raw value \<open>max\<close> gives 1000.
\<close>

theorem normalize_bounds_endpoints:
  assumes "fr finger_name = Some (min_val, max_val)"
    and "1 / 1000 \<le> \<bar>max_val - min_val\<bar>"
  shows "0 \<le> normalize fr finger_name r \<and> normalize fr finger_name r \<le> 1000 \<and>
         (min_val < max_val \<longrightarrow>
            normalize fr finger_name min_val = 0 \<and> normalize fr finger_name max_val = 1000)"
proof -
  have nd: "\<not> \<bar>max_val - min_val\<bar> < 1 / 1000" using assms(2) by simp
  have "normalize fr finger_name min_val = 0"
    using assms(1) nd by (simp add: normalize_Some)
  moreover have "normalize fr finger_name max_val = 1000" if "min_val < max_val"
    using assms(1) nd that by (simp add: normalize_Some)
  ultimately show ?thesis using normalize_range by blast
qed

theorem normalize_bounds_endpoints_witness:
  "default_ranges ''thumb_bend'' = Some (3 / 10, 15 / 10) \<and>
   (1 / 1000 :: real) \<le> \<bar>15 / 10 - 3 / 10\<bar> \<and>
   0 \<le> normalize default_ranges ''thumb_bend'' (9 / 10) \<and>
   normalize default_ranges ''thumb_bend'' (9 / 10) \<le> 1000 \<and>
   normalize default_ranges ''thumb_bend'' (3 / 10) = 0 \<and>
   normalize default_ranges ''thumb_bend'' (15 / 10) = 1000"
proof -
  have a: "default_ranges ''thumb_bend'' = Some (3 / 10, 15 / 10)"
    by (simp add: default_ranges_def)
  have b: "(1 / 1000 :: real) \<le> \<bar>15 / 10 - 3 / 10\<bar>" by simp
  show ?thesis
    using a b
      normalize_bounds_endpoints
        [of default_ranges "''thumb_bend''" "3 / 10" "15 / 10" "9 / 10"]
    by simp
qed









section \<open>Properties of the smoother\<close>




lemma smooth_uninitialized:
  "\<not> initialized s \<Longrightarrow>
   smooth s angles = Some (angles, s\<lparr>smoothed := map of_int angles, initialized := True\<rparr>)"
  by (simp add: smooth_def Let_def comp_def py_int_of_int)

text \<open>
  C4.  The first call of \<^verbatim>\<open>smooth\<close> after construction, or after \<^verbatim>\<open>reset\<close>, returns its
  integer input unchanged, stores it as the state with no blending, and marks the
  smoother initialized (for an input of any length, six included).
\<close>

theorem smooth_first_call:
  "smooth (AngleSmoother_init a) v =
     Some (v, \<lparr>alpha = a, smoothed = map of_int v, initialized = True\<rparr>) \<and>
   smooth (reset s) v = Some (v, s\<lparr>smoothed := map of_int v, initialized := True\<rparr>)"
  by (simp add: smooth_uninitialized AngleSmoother_init_def reset_def)

theorem smooth_first_call_witness:
  "smooth (AngleSmoother_init (35 / 100)) [588, 294, 882, 882, 250, 71] =
     Some ([588, 294, 882, 882, 250, 71],
           \<lparr>alpha = 35 / 100, smoothed = [588, 294, 882, 882, 250, 71], initialized = True\<rparr>) \<and>
   smooth (reset \<lparr>alpha = 35 / 100, smoothed = [7 / 10, 0, 0, 0, 0, 0], initialized = True\<rparr>)
       [1000, 1000, 1000, 1000, 1000, 1000] =
     Some ([1000, 1000, 1000, 1000, 1000, 1000],
           \<lparr>alpha = 35 / 100, smoothed = [1000, 1000, 1000, 1000, 1000, 1000],
            initialized = True\<rparr>)"
  using smooth_first_call
    [of "35 / 100" "[588, 294, 882, 882, 250, 71]"
        "\<lparr>alpha = 35 / 100, smoothed = [7 / 10, 0, 0, 0, 0, 0], initialized = True\<rparr>"]
    smooth_first_call
    [of "35 / 100" "[1000, 1000, 1000, 1000, 1000, 1000]"
        "\<lparr>alpha = 35 / 100, smoothed = [7 / 10, 0, 0, 0, 0, 0], initialized = True\<rparr>"]
  by simp








section \<open>Properties of feature extraction\<close>









text \<open>
  C10.  \<open>calculate_finger_raw_value\<close> reads only the wrist, MCP and TIP keypoints: two
  skeletons on which these three reads agree give the same result, whatever the
  \<open>pip_idx\<close> and \<open>dip_idx\<close> arguments and the other keypoints are.
\<close>

theorem finger_raw_value_ignores_pip_dip:
  assumes "get_landmark_array landmarks1 wrist_idx = get_landmark_array landmarks2 wrist_idx"
    and "get_landmark_array landmarks1 mcp_idx = get_landmark_array landmarks2 mcp_idx"
    and "get_landmark_array landmarks1 tip_idx = get_landmark_array landmarks2 tip_idx"
  shows "calculate_finger_raw_value landmarks1 mcp_idx pip_idx1 dip_idx1 tip_idx wrist_idx =
         calculate_finger_raw_value landmarks2 mcp_idx pip_idx2 dip_idx2 tip_idx wrist_idx"
  using assms by (simp add: calculate_finger_raw_value_def)

theorem finger_raw_value_ignores_pip_dip_witness:
  "get_landmark_array example_hand 0 = get_landmark_array example_hand_bent 0 \<and>
   get_landmark_array example_hand 5 = get_landmark_array example_hand_bent 5 \<and>
   get_landmark_array example_hand 8 = get_landmark_array example_hand_bent 8 \<and>
   example_hand ! 6 \<noteq> example_hand_bent ! 6 \<and>
   example_hand ! 7 \<noteq> example_hand_bent ! 7 \<and>
   calculate_finger_raw_value example_hand 5 6 7 8 0 =
   calculate_finger_raw_value example_hand_bent 5 7 6 8 0"
proof -
  have a: "get_landmark_array example_hand 0 = get_landmark_array example_hand_bent 0"
    and b: "get_landmark_array example_hand 5 = get_landmark_array example_hand_bent 5"
    and c: "get_landmark_array example_hand 8 = get_landmark_array example_hand_bent 8"
    by (simp_all add: get_landmark_array_def example_hand_bent_def example_hand_def)
  have d: "example_hand ! 6 \<noteq> example_hand_bent ! 6"
    and e: "example_hand ! 7 \<noteq> example_hand_bent ! 7"
    by (simp_all add: example_hand_bent_def example_hand_def point_def)
  from finger_raw_value_ignores_pip_dip [OF a b c, of 6 7 7 6] a b c d e
  show ?thesis by blast
qed

section \<open>Properties of the frame loop\<close>

lemma process_frame_None: "process_frame st None = Some (no_hand_data, st)"
  by (simp add: process_frame_def)

lemma process_frames_None:
  "process_frames st (replicate n None) = Some (replicate n no_hand_data, st)"
  by (induction n) (simp_all add: process_frame_None)

lemma loop_iteration_no_hand:
  "in_success inp \<Longrightarrow> in_hand inp = None \<Longrightarrow> no_event inp \<Longrightarrow>
   loop_iteration st inp = Some ([no_hand_data], st, True)"
  by (simp add: loop_iteration_def process_frame_None handle_key_def no_event_def)

lemma run_no_hand:
  "\<forall>inp \<in> set inputs. in_success inp \<and> in_hand inp = None \<and> no_event inp \<Longrightarrow>
   run st inputs = Some (replicate (length inputs) no_hand_data, st)"
proof (induction inputs)
  case Nil
  show ?case by simp
next
  case (Cons inp rest)
  from Cons.prems have a: "in_success inp" "in_hand inp = None" "no_event inp"
    by auto
  have it: "loop_iteration st inp = Some ([no_hand_data], st, True)"
    using a by (rule loop_iteration_no_hand)
  from Cons.prems have "\<forall>inp \<in> set rest. in_success inp \<and> in_hand inp = None \<and> no_event inp"
    by auto
  then have "run st rest = Some (replicate (length rest) no_hand_data, st)" by (rule Cons.IH)
  with it show ?case by simp
qed

text \<open>
  C3.  A frame without a skeleton emits exactly the packet
  \<^verbatim>\<open>{detected: false, angles: [1000, 1000, 1000, 1000, 1000, 500], landmarks: []}\<close> and
  leaves the state, the smoother's running values and initialized flag included,
  unchanged; so does any number of such frames in a row, also as iterations of the loop
  in which no click and no handled key arrives.
\<close>

theorem no_hand_frames:
  "process_frame st None =
     Some (\<lparr>data_detected = False, data_angles = [1000, 1000, 1000, 1000, 1000, 500],
            data_landmarks = []\<rparr>, st) \<and>
   process_frames st (replicate n None) =
     Some (replicate n \<lparr>data_detected = False, data_angles = [1000, 1000, 1000, 1000, 1000, 500],
                        data_landmarks = []\<rparr>, st) \<and>
   ((\<forall>inp \<in> set inputs. in_success inp \<and> in_hand inp = None \<and> no_event inp) \<longrightarrow>
    run st inputs =
      Some (replicate (length inputs)
              \<lparr>data_detected = False, data_angles = [1000, 1000, 1000, 1000, 1000, 500],
               data_landmarks = []\<rparr>, st))"
proof -
  have "process_frame st None = Some (no_hand_data, st)" by (rule process_frame_None)
  moreover have "process_frames st (replicate n None) = Some (replicate n no_hand_data, st)"
    by (rule process_frames_None)
  moreover have "run st inputs = Some (replicate (length inputs) no_hand_data, st)"
    if "\<forall>inp \<in> set inputs. in_success inp \<and> in_hand inp = None \<and> no_event inp"
    using that by (rule run_no_hand)
  ultimately show ?thesis unfolding no_hand_data_def by blast
qed

theorem no_hand_frames_witness:
  "in_success no_hand_input \<and> in_hand no_hand_input = None \<and> no_event no_hand_input \<and>
   run (main_init Missing) [no_hand_input, no_hand_input] =
     Some ([\<lparr>data_detected = False, data_angles = [1000, 1000, 1000, 1000, 1000, 500],
             data_landmarks = []\<rparr>,
            \<lparr>data_detected = False, data_angles = [1000, 1000, 1000, 1000, 1000, 500],
             data_landmarks = []\<rparr>], main_init Missing)"
proof -
  have a: "in_success no_hand_input \<and> in_hand no_hand_input = None \<and> no_event no_hand_input"
    by (simp add: no_hand_input_def no_event_def ord_def)
  then have b: "\<forall>inp \<in> set [no_hand_input, no_hand_input].
      in_success inp \<and> in_hand inp = None \<and> no_event inp"
    by simp
  from no_hand_frames [of "main_init Missing" 2 "[no_hand_input, no_hand_input]"] b
  have "run (main_init Missing) [no_hand_input, no_hand_input] =
      Some (replicate (length [no_hand_input, no_hand_input])
              \<lparr>data_detected = False, data_angles = [1000, 1000, 1000, 1000, 1000, 500],
               data_landmarks = []\<rparr>, main_init Missing)"
    by blast
  then show ?thesis using a by (simp add: numeral_2_eq_2)
qed
















end
